theory Spec2Isabelle
  imports Complex_Main "HOL-Library.AList"
begin

section \<open>Keyboard heatmap of kitmap: key resolution and heat intensity\<close>

text \<open>
  The development embeds the heatmap component (keyboard-heatmap.tsx): the tables
  \<open>KEYBOARD_LAYOUT\<close>, \<open>KEY_DISPLAY_NAMES\<close>, \<open>KEY_WIDTHS\<close>, the functions
  \<open>getHeatColor\<close>, \<open>getKeyCount\<close>, \<open>getIntensity\<close> and the per-key part of
  \<open>KeyboardHeatmap\<close>.

  Modelling decisions.
  \<^item> A JavaScript string is a \<open>string\<close> (list of 8-bit characters). Every label of the
    layout and every key of the two tables is ASCII; the four glyphs of the display table
    are written as their UTF-8 bytes.
  \<^item> \<open>toUpperCase\<close> and \<open>toLowerCase\<close> map the 26 ASCII letters and leave every other
    character alone.
  \<^item> \<open>Record<string, number>\<close> is an association list read with \<open>map_of\<close>: the first
    entry for a key is the property, \<open>None\<close> is \<open>undefined\<close>. Only own properties are
    modelled.
  \<^item> Press counts are \<open>int\<close>; the quotient of \<open>getIntensity\<close> and the comparisons of
    \<open>getHeatColor\<close> are taken in \<open>real\<close>.
\<close>

subsection \<open>Strings\<close>

definition lower_letters :: string where
  "lower_letters = ''abcdefghijklmnopqrstuvwxyz''"

definition upper_letters :: string where
  "upper_letters = ''ABCDEFGHIJKLMNOPQRSTUVWXYZ''"

definition upper_char :: "char \<Rightarrow> char" where
  "upper_char c = (case map_of (zip lower_letters upper_letters) c of Some u \<Rightarrow> u | None \<Rightarrow> c)"

definition lower_char :: "char \<Rightarrow> char" where
  "lower_char c = (case map_of (zip upper_letters lower_letters) c of Some l \<Rightarrow> l | None \<Rightarrow> c)"

definition toUpperCase :: "string \<Rightarrow> string" where
  "toUpperCase s = map upper_char s"

definition toLowerCase :: "string \<Rightarrow> string" where
  "toLowerCase s = map lower_char s"

text \<open>\<open>s.charAt(0)\<close> is the first character as a string, and the empty string when \<open>s\<close> is
  empty; \<open>s.slice(1)\<close> is the rest.\<close>

definition charAt0 :: "string \<Rightarrow> string" where
  "charAt0 s = take 1 s"

definition slice1 :: "string \<Rightarrow> string" where
  "slice1 s = drop 1 s"

subsection \<open>The statistics snapshot\<close>

type_synonym frequency_map = "(string \<times> int) list"

text \<open>Of the fields of \<open>AllStats\<close> the heatmap reads \<open>key_frequency_map\<close> only.\<close>

record AllStats =
  key_frequency_map :: frequency_map

text \<open>\<open>Object.values\<close>: one value per property, so entries shadowed by an earlier entry
  with the same key are dropped first.\<close>

definition Object_values :: "frequency_map \<Rightarrow> int list" where
  "Object_values freq = map snd (AList.clearjunk freq)"

subsection \<open>Static tables\<close>

text \<open>The first row is the backquote key, the twelve one-character keys from "1" to "=",
  written as one label per character, and "Backspace".\<close>

definition single_keys :: "string \<Rightarrow> string list" where
  "single_keys cs = map (\<lambda>c. [c]) cs"

definition KEYBOARD_LAYOUT :: "string list list" where
  "KEYBOARD_LAYOUT =
    [[CHR 0x60] # single_keys ''1234567890-='' @ [''Backspace''],
     [''Tab'', ''q'', ''w'', ''e'', ''r'', ''t'', ''y'', ''u'', ''i'', ''o'', ''p'', ''['', '']'',
      [CHR 0x5C]],
     [''CapsLock'', ''a'', ''s'', ''d'', ''f'', ''g'', ''h'', ''j'', ''k'', ''l'', '';'', [CHR 0x27],
      ''Return''],
     [''ShiftLeft'', ''z'', ''x'', ''c'', ''v'', ''b'', ''n'', ''m'', '','', ''.'', ''/'',
      ''ShiftRight''],
     [''ControlLeft'', ''MetaLeft'', ''Alt'', ''Space'', ''AltGr'', ''MetaRight'',
      ''ControlRight'']]"

text \<open>The glyphs: U+232B (erase to the left), U+23CE (return), U+21E7 (shift),
  U+2318 (command).\<close>

definition glyph_backspace :: string where
  "glyph_backspace = [CHR 0xE2, CHR 0x8C, CHR 0xAB]"

definition glyph_return :: string where
  "glyph_return = [CHR 0xE2, CHR 0x8F, CHR 0x8E]"

definition glyph_shift :: string where
  "glyph_shift = [CHR 0xE2, CHR 0x87, CHR 0xA7]"

definition glyph_meta :: string where
  "glyph_meta = [CHR 0xE2, CHR 0x8C, CHR 0x98]"

definition KEY_DISPLAY_NAMES :: "(string \<times> string) list" where
  "KEY_DISPLAY_NAMES =
    [(''Backspace'', glyph_backspace),
     (''Tab'', ''Tab''),
     (''CapsLock'', ''Caps''),
     (''Return'', glyph_return),
     (''Enter'', glyph_return),
     (''ShiftLeft'', glyph_shift),
     (''ShiftRight'', glyph_shift),
     (''ControlLeft'', ''Ctrl''),
     (''ControlRight'', ''Ctrl''),
     (''MetaLeft'', glyph_meta),
     (''MetaRight'', glyph_meta),
     (''Alt'', ''Alt''),
     (''AltGr'', ''Alt''),
     (''Space'', ''Space'')]"

definition KEY_WIDTHS :: "(string \<times> string) list" where
  "KEY_WIDTHS =
    [(''Backspace'', ''w-20''),
     (''Tab'', ''w-16''),
     (''CapsLock'', ''w-18''),
     (''Return'', ''w-20''),
     (''ShiftLeft'', ''w-24''),
     (''ShiftRight'', ''w-28''),
     (''Space'', ''w-64''),
     (''ControlLeft'', ''w-16''),
     (''ControlRight'', ''w-16''),
     (''MetaLeft'', ''w-14''),
     (''MetaRight'', ''w-14''),
     (''Alt'', ''w-14''),
     (''AltGr'', ''w-14'')]"

subsection \<open>getHeatColor\<close>

definition getHeatColor :: "real \<Rightarrow> string" where
  "getHeatColor intensity =
    (if intensity = 0 then ''bg-secondary/50''
     else if intensity < 0.04 then ''bg-blue-950/80''
     else if intensity < 0.08 then ''bg-blue-900/80''
     else if intensity < 0.13 then ''bg-blue-800/80''
     else if intensity < 0.19 then ''bg-blue-700/80''
     else if intensity < 0.26 then ''bg-blue-600/80''
     else if intensity < 0.34 then ''bg-cyan-700/80''
     else if intensity < 0.42 then ''bg-cyan-500/80''
     else if intensity < 0.52 then ''bg-green-400/80''
     else if intensity < 0.62 then ''bg-yellow-400/80''
     else if intensity < 0.7 then ''bg-yellow-500/90''
     else if intensity < 0.77 then ''bg-orange-400/90''
     else if intensity < 0.84 then ''bg-orange-500/90''
     else if intensity < 0.9 then ''bg-red-400/90''
     else if intensity < 0.96 then ''bg-red-500/90''
     else ''bg-red-700/95'')"

text \<open>The legend of the component lists the sixteen colour classes from "None" to
  "Extreme". The severity bucket of an intensity is the position of its colour class in
  the legend.\<close>

definition LEGEND :: "string list" where
  "LEGEND =
    [''bg-secondary/50'', ''bg-blue-950/80'', ''bg-blue-900/80'', ''bg-blue-800/80'',
     ''bg-blue-700/80'', ''bg-blue-600/80'', ''bg-cyan-700/80'', ''bg-cyan-500/80'',
     ''bg-green-400/80'', ''bg-yellow-400/80'', ''bg-yellow-500/90'', ''bg-orange-400/90'',
     ''bg-orange-500/90'', ''bg-red-400/90'', ''bg-red-500/90'', ''bg-red-700/95'']"

fun position :: "'a \<Rightarrow> 'a list \<Rightarrow> nat" where
  "position x [] = 0"
| "position x (y # ys) = (if x = y then 0 else Suc (position x ys))"

definition bucket :: "real \<Rightarrow> nat" where
  "bucket intensity = position (getHeatColor intensity) LEGEND"

text \<open>The constants of the ladder, in the order of the source.\<close>

definition thresholds :: "real list" where
  "thresholds = [0.04, 0.08, 0.13, 0.19, 0.26, 0.34, 0.42, 0.52, 0.62, 0.7, 0.77, 0.84, 0.9, 0.96]"

subsection \<open>getKeyCount\<close>

definition getKeyCount :: "AllStats \<Rightarrow> string \<Rightarrow> int" where
  "getKeyCount stats keyName =
    (let freq = key_frequency_map stats in
     case map_of freq keyName of Some v \<Rightarrow> v | None \<Rightarrow>
       (let upper = toUpperCase keyName;
            lower = toLowerCase keyName;
            capitalized = toUpperCase (charAt0 keyName) @ toLowerCase (slice1 keyName) in
        case map_of freq upper of Some v \<Rightarrow> v | None \<Rightarrow>
        (case map_of freq lower of Some v \<Rightarrow> v | None \<Rightarrow>
        (case map_of freq capitalized of Some v \<Rightarrow> v | None \<Rightarrow>
        (if length keyName = 1
         then (let keyVariant = ''Key'' @ upper in
               case map_of freq keyVariant of Some v \<Rightarrow> v | None \<Rightarrow> 0)
         else 0)))))"

subsection \<open>getIntensity\<close>

text \<open>\<open>Math.max(...Object.values(freq), 1)\<close>: the greatest of the values and 1.\<close>

definition maxCount :: "AllStats \<Rightarrow> int" where
  "maxCount stats = foldr max (Object_values (key_frequency_map stats)) 1"

definition getIntensity :: "AllStats \<Rightarrow> string \<Rightarrow> real" where
  "getIntensity stats keyName =
    (let count = getKeyCount stats keyName
     in real_of_int count / real_of_int (maxCount stats))"

subsection \<open>KeyboardHeatmap, one cell per key\<close>

text \<open>\<open>a || b\<close> on an optional string: \<open>undefined\<close> and the empty string are falsy.\<close>

definition or_else :: "string option \<Rightarrow> string \<Rightarrow> string" where
  "or_else a b = (case a of None \<Rightarrow> b | Some s \<Rightarrow> if s = [] then b else s)"

record key_cell =
  cell_key :: string
  cell_count :: int
  cell_width :: string
  cell_heat :: string
  cell_displayName :: string
  cell_tooltip :: bool

definition renderKey :: "AllStats \<Rightarrow> string \<Rightarrow> key_cell" where
  "renderKey stats key =
    (let intensity = getIntensity stats key;
         count = getKeyCount stats key;
         displayName = or_else (map_of KEY_DISPLAY_NAMES key) (toUpperCase key);
         width = or_else (map_of KEY_WIDTHS key) ''w-12''
     in \<lparr>cell_key = key, cell_count = count, cell_width = width,
         cell_heat = getHeatColor intensity, cell_displayName = displayName,
         cell_tooltip = (count > 0)\<rparr>)"

definition KeyboardHeatmap :: "AllStats \<Rightarrow> key_cell list list" where
  "KeyboardHeatmap stats = map (map (renderKey stats)) KEYBOARD_LAYOUT"

section \<open>Notions of the specification\<close>

text \<open>The sixteen intensity bands as the specification names them: bucket 0 is the point
  0, bucket 1 is the open interval from 0 to the first threshold, buckets 2 to 14 are closed
  below and open above, bucket 15 is closed at 1.\<close>

definition band_lower :: "nat \<Rightarrow> real" where
  "band_lower i = (0 # thresholds) ! (i - 1)"

definition band_upper :: "nat \<Rightarrow> real" where
  "band_upper i = (thresholds @ [1]) ! (i - 1)"

definition band_claims :: "nat \<Rightarrow> real \<Rightarrow> bool" where
  "band_claims i x =
    (if i = 0 then x = 0
     else (if i = 1 then band_lower i < x else band_lower i \<le> x) \<and>
          (if i = 15 then x \<le> band_upper i else x < band_upper i))"

definition band_width :: "nat \<Rightarrow> real" where
  "band_width i = band_upper i - band_lower i"

text \<open>The lookup order of the resolver as the specification words it: an ordered list of
  candidate keys, the first one present in the mapping wins, and 0 when none is.\<close>

definition title_case :: "string \<Rightarrow> string" where
  "title_case label = (case label of [] \<Rightarrow> [] | c # cs \<Rightarrow> upper_char c # map lower_char cs)"

definition candidates :: "string \<Rightarrow> string list" where
  "candidates label =
    [label, toUpperCase label, toLowerCase label, title_case label] @
    (if length label = 1 then [''Key'' @ toUpperCase label] else [])"

fun first_match :: "frequency_map \<Rightarrow> string list \<Rightarrow> int" where
  "first_match freq [] = 0"
| "first_match freq (k # ks) =
    (case map_of freq k of Some v \<Rightarrow> v | None \<Rightarrow> first_match freq ks)"

definition resolve :: "string \<Rightarrow> frequency_map \<Rightarrow> int" where
  "resolve label freq = first_match freq (candidates label)"

text \<open>Conditions on the values of a mapping.\<close>

definition non_negative :: "frequency_map \<Rightarrow> bool" where
  "non_negative freq = list_all (\<lambda>v. 0 \<le> v) (Object_values freq)"

definition all_zero :: "frequency_map \<Rightarrow> bool" where
  "all_zero freq = list_all (\<lambda>v. v = 0) (Object_values freq)"

section \<open>The severity ladder\<close>

lemma bucket_ladder:
  "bucket x =
    (if x = 0 then 0 else if x < 0.04 then 1 else if x < 0.08 then 2
     else if x < 0.13 then 3 else if x < 0.19 then 4 else if x < 0.26 then 5
     else if x < 0.34 then 6 else if x < 0.42 then 7 else if x < 0.52 then 8
     else if x < 0.62 then 9 else if x < 0.7 then 10 else if x < 0.77 then 11
     else if x < 0.84 then 12 else if x < 0.9 then 13 else if x < 0.96 then 14 else 15)"
  by (simp add: bucket_def getHeatColor_def LEGEND_def)

text \<open>Past 0, the bucket counts the thresholds that the intensity has reached.\<close>

lemma bucket_count:
  "bucket x = (if x = 0 then 0 else Suc (length (filter (\<lambda>t. t \<le> x) thresholds)))"
  unfolding bucket_ladder thresholds_def by simp

lemma count_below_mono:
  "x \<le> y \<Longrightarrow> length (filter (\<lambda>t. t \<le> x) ts) \<le> length (filter (\<lambda>t. t \<le> (y::real)) ts)"
  by (induction ts) auto

lemma bucket_mono: "0 \<le> x \<Longrightarrow> x \<le> y \<Longrightarrow> bucket x \<le> bucket y"
  using count_below_mono [of x y thresholds] by (auto simp: bucket_count)

lemma bucket_less_16: "bucket x < 16"
  by (simp add: bucket_ladder)

lemma bucket_zero_iff: "bucket x = 0 \<longleftrightarrow> x = 0"
  by (simp add: bucket_count)

lemma LEGEND_bucket: "getHeatColor x = LEGEND ! bucket x"
  unfolding bucket_ladder by (simp add: getHeatColor_def LEGEND_def)

lemma distinct_LEGEND: "distinct LEGEND"
  by (simp add: LEGEND_def)

lemma length_LEGEND: "length LEGEND = 16"
  by (simp add: LEGEND_def)

lemma sorted_thresholds: "sorted_wrt (<) thresholds"
  by (simp add: thresholds_def)

lemma band_claims_bucket: "0 \<le> x \<Longrightarrow> x \<le> 1 \<Longrightarrow> band_claims (bucket x) x"
  unfolding bucket_ladder
  by (simp add: band_claims_def band_lower_def band_upper_def thresholds_def)

lemma count_below_upper:
  "sorted ts \<Longrightarrow> n < length ts \<Longrightarrow> x < ts ! n \<Longrightarrow> length (filter (\<lambda>t. t \<le> (x::real)) ts) \<le> n"
proof (induction ts arbitrary: n)
  case Nil
  then show ?case by simp
next
  case (Cons t ts)
  show ?case
  proof (cases n)
    case 0
    with Cons.prems have "\<forall>u \<in> set (t # ts). x < u" by auto
    then have "filter (\<lambda>t. t \<le> x) (t # ts) = []"
      by (auto simp: filter_empty_conv)
    then show ?thesis by simp
  next
    case (Suc m)
    with Cons.prems have "length (filter (\<lambda>t. t \<le> x) ts) \<le> m"
      by (intro Cons.IH) auto
    with Suc show ?thesis by simp
  qed
qed

lemma count_below_lower:
  "sorted ts \<Longrightarrow> n < length ts \<Longrightarrow> ts ! n \<le> x \<Longrightarrow> n < length (filter (\<lambda>t. t \<le> (x::real)) ts)"
proof (induction ts arbitrary: n)
  case Nil
  then show ?case by simp
next
  case (Cons t ts)
  show ?case
  proof (cases n)
    case 0
    with Cons.prems show ?thesis by simp
  next
    case (Suc m)
    with Cons.prems have m: "m < length (filter (\<lambda>t. t \<le> x) ts)"
      by (intro Cons.IH) auto
    from Suc Cons.prems have "ts ! m \<in> set ts" and "ts ! m \<le> x" by simp_all
    with Cons.prems(1) have "t \<le> x" by fastforce
    with m Suc show ?thesis by simp
  qed
qed

lemma sorted_thresholds_le: "sorted thresholds"
  by (simp add: thresholds_def)

lemma length_thresholds: "length thresholds = 14"
  by (simp add: thresholds_def)

lemma thresholds_positive: "t \<in> set thresholds \<Longrightarrow> 0 < t"
  by (auto simp: thresholds_def)

lemma band_claims_unique:
  assumes "i < 16" and "band_claims i x"
  shows "i = bucket x"
proof (cases "i = 0")
  case True
  with assms(2) show ?thesis
    by (simp add: band_claims_def bucket_zero_iff)
next
  case False
  let ?n = "length (filter (\<lambda>t. t \<le> x) thresholds)"
  have low: "2 \<le> i \<Longrightarrow> thresholds ! (i - 2) \<le> x"
    using assms(2) False by (auto simp: band_claims_def band_lower_def nth_Cons' numeral_2_eq_2)
  have up: "x < thresholds ! (i - 1)" if "i \<le> 14"
  proof -
    from that False have "i - 1 < length thresholds" and "i \<noteq> 15"
      by (simp_all add: length_thresholds)
    with assms(2) False show ?thesis
      by (simp add: band_claims_def band_upper_def nth_append)
  qed
  have pos: "0 < x"
  proof (cases "i = 1")
    case True
    with assms(2) show ?thesis
      by (simp add: band_claims_def band_lower_def)
  next
    case False
    with \<open>i \<noteq> 0\<close> assms(1) have "2 \<le> i" and "i - 2 < length thresholds"
      by (simp_all add: length_thresholds)
    then have "0 < thresholds ! (i - 2)" and "thresholds ! (i - 2) \<le> x"
      using low by (simp_all add: thresholds_positive)
    then show ?thesis by simp
  qed
  have "?n \<le> i - 1"
  proof (cases "i \<le> 14")
    case True
    with False up show ?thesis
      by (intro count_below_upper sorted_thresholds_le) (simp_all add: length_thresholds)
  next
    case False
    have "?n \<le> length thresholds" by (rule length_filter_le)
    with False show ?thesis by (simp add: length_thresholds)
  qed
  moreover have "i - 1 \<le> ?n"
  proof (cases "2 \<le> i")
    case True
    with assms(1) low have "i - 2 < ?n"
      by (intro count_below_lower sorted_thresholds_le) (simp_all add: length_thresholds)
    then show ?thesis by simp
  next
    case False
    then show ?thesis by simp
  qed
  ultimately have "Suc ?n = i"
    using False by simp
  with pos show ?thesis
    by (simp add: bucket_count)
qed

text \<open>
  Claim C1. On the interval from 0 to 1 the mapping from intensity to bucket is total and
  single-valued: exactly one of the sixteen bands claims \<open>x\<close>, it is the band of the bucket
  that \<open>getHeatColor\<close> selects (the returned colour class is the legend entry at that
  index, and the sixteen legend entries are distinct), the bucket index does not decrease
  when \<open>x\<close> grows, bucket 0 is assigned exactly at \<open>x = 0\<close>, and the fourteen thresholds
  are strictly ascending.
\<close>

theorem bucket_total_monotone:
  assumes "0 \<le> x" and "x \<le> 1"
  shows "(\<exists>!i. i < 16 \<and> band_claims i x) \<and> band_claims (bucket x) x \<and> bucket x < 16
    \<and> getHeatColor x = LEGEND ! bucket x \<and> distinct LEGEND \<and> length LEGEND = 16
    \<and> (\<forall>y. x \<le> y \<and> y \<le> 1 \<longrightarrow> bucket x \<le> bucket y)
    \<and> (bucket x = 0 \<longleftrightarrow> x = 0)
    \<and> sorted_wrt (<) thresholds"
proof -
  have claimed: "band_claims (bucket x) x"
    using assms by (rule band_claims_bucket)
  have one: "\<exists>!i. i < 16 \<and> band_claims i x"
  proof (rule ex1I [of _ "bucket x"])
    show "bucket x < 16 \<and> band_claims (bucket x) x"
      using claimed bucket_less_16 by simp
  next
    fix i assume "i < 16 \<and> band_claims i x"
    then show "i = bucket x" by (simp add: band_claims_unique)
  qed
  have mono: "\<forall>y. x \<le> y \<and> y \<le> 1 \<longrightarrow> bucket x \<le> bucket y"
    using assms(1) by (simp add: bucket_mono)
  show ?thesis
    by (intro conjI one claimed bucket_less_16 LEGEND_bucket distinct_LEGEND length_LEGEND
        mono bucket_zero_iff sorted_thresholds)
qed

theorem bucket_total_monotone_witness:
  "(0::real) \<le> 1/2 \<and> (1/2::real) \<le> 1 \<and> (\<exists>!i. i < 16 \<and> band_claims i (1/2))
    \<and> bucket (1/2) = 8 \<and> band_claims 8 (1/2) \<and> bucket (1/2) \<le> bucket (9/10)"
proof -
  have lo: "(0::real) \<le> 1/2" and hi: "(1/2::real) \<le> 1" by simp_all
  have b: "bucket (1/2) = 8" by (simp add: bucket_ladder)
  from bucket_total_monotone [OF lo hi] b show ?thesis by simp
qed

section \<open>The key identity resolver\<close>

lemmas case_defs = toUpperCase_def toLowerCase_def upper_char_def lower_char_def
  upper_letters_def lower_letters_def charAt0_def slice1_def

lemma capitalized_title_case:
  "toUpperCase (charAt0 label) @ toLowerCase (slice1 label) = title_case label"
  by (cases label)
    (simp_all add: title_case_def toUpperCase_def toLowerCase_def charAt0_def slice1_def)

lemma getKeyCount_first_match:
  "getKeyCount stats label = first_match (key_frequency_map stats) (candidates label)"
  by (simp add: getKeyCount_def candidates_def capitalized_title_case Let_def
      split: option.splits)

lemma first_match_cases:
  "first_match freq ks = 0 \<or> (\<exists>k \<in> set ks. map_of freq k = Some (first_match freq ks))"
  by (induction ks) (auto split: option.splits)

lemma first_match_agree:
  "\<forall>k \<in> set ks. map_of f k = map_of g k \<Longrightarrow> first_match f ks = first_match g ks"
  by (induction ks) (auto split: option.splits)

lemma first_match_absent:
  "\<forall>k \<in> set ks. map_of f k = None \<Longrightarrow> first_match f ks = 0"
  by (induction ks) auto

text \<open>Every property value is among \<open>Object.values\<close>, and nothing else is.\<close>

lemma map_of_Object_values: "map_of freq k = Some v \<Longrightarrow> v \<in> set (Object_values freq)"
proof -
  assume "map_of freq k = Some v"
  then have "map_of (AList.clearjunk freq) k = Some v"
    by (simp add: map_of_clearjunk)
  then have "(k, v) \<in> set (AList.clearjunk freq)"
    by (rule map_of_SomeD)
  then show ?thesis
    unfolding Object_values_def by force
qed

lemma set_Object_values: "set (Object_values freq) = ran (map_of freq)"
proof -
  have "ran (map_of (AList.clearjunk freq)) = snd ` set (AList.clearjunk freq)"
    by (rule ran_distinct) simp
  then show ?thesis
    by (simp add: Object_values_def map_of_clearjunk)
qed

lemma getKeyCount_value:
  "getKeyCount stats label = 0
   \<or> getKeyCount stats label \<in> set (Object_values (key_frequency_map stats))"
  using first_match_cases [of "key_frequency_map stats" "candidates label"]
  by (auto simp: getKeyCount_first_match dest: map_of_Object_values)

text \<open>
  Claim C2. For every label and every frequency mapping, \<open>getKeyCount\<close> is the first-match
  lookup over the ordered candidates: the label, its upper-cased form, its lower-cased form,
  its title-cased form and, only for a label of exactly one character, "Key" followed by
  the upper-cased character; it is 0 when no candidate is present. For the label "a" and
  the mapping with the single entry "KeyA" = 42 the result is 42.
\<close>

theorem resolve_lookup_order:
  "getKeyCount stats label = resolve label (key_frequency_map stats)
   \<and> candidates label =
       (if length label = 1
        then [label, toUpperCase label, toLowerCase label, title_case label,
              ''Key'' @ toUpperCase label]
        else [label, toUpperCase label, toLowerCase label, title_case label])
   \<and> getKeyCount \<lparr>key_frequency_map = [(''KeyA'', 42)]\<rparr> ''a'' = 42"
  by (simp add: getKeyCount_first_match resolve_def candidates_def title_case_def case_defs)

text \<open>
  Claim C6. When the mapping has an entry whose key is exactly the label, \<open>getKeyCount\<close>
  returns the value of that entry, whatever other variants are present. For the label
  "ShiftLeft" and the mapping "ShiftLeft" = 10, "shiftleft" = 5 the result is 10.
\<close>

theorem exact_match_first:
  "(map_of (key_frequency_map stats) label = Some v \<longrightarrow> getKeyCount stats label = v)
   \<and> getKeyCount \<lparr>key_frequency_map = [(''ShiftLeft'', 10), (''shiftleft'', 5)]\<rparr>
        ''ShiftLeft'' = 10"
  by (simp add: getKeyCount_def)

theorem exact_match_first_witness:
  "map_of [(''ShiftLeft'', 10), (''shiftleft'', 5::int)] ''ShiftLeft'' = Some 10
   \<and> getKeyCount \<lparr>key_frequency_map = [(''ShiftLeft'', 10), (''shiftleft'', 5)]\<rparr>
        ''ShiftLeft'' = 10"
  using exact_match_first
    [of "\<lparr>key_frequency_map = [(''ShiftLeft'', 10), (''shiftleft'', 5)]\<rparr>" "''ShiftLeft''" 10]
  by simp

lemma first_match_first:
  "\<forall>k' \<in> set ks1. map_of freq k' = None \<Longrightarrow> map_of freq k = Some v
    \<Longrightarrow> first_match freq (ks1 @ k # ks2) = v"
  by (induction ks1) auto

text \<open>
  Claim C7. A frequency mapping holds non-negative press counts. For every label and every
  such mapping \<open>getKeyCount\<close> yields exactly one integer and it is not negative: it is 0
  when no candidate is present, and otherwise the value stored under the first candidate
  that is present. With "a" = 1 and "KeyA" = 100 the label "a" resolves to 1, with "KeyA"
  alone to 100, and in the empty mapping "Escape" resolves to 0.
\<close>

theorem resolve_total_deterministic:
  assumes "non_negative (key_frequency_map stats)"
  shows "(\<exists>!c. getKeyCount stats label = c \<and> 0 \<le> c)
   \<and> ((\<forall>k \<in> set (candidates label). map_of (key_frequency_map stats) k = None)
        \<longrightarrow> getKeyCount stats label = 0)
   \<and> (\<forall>ks1 k ks2 v.
         candidates label = ks1 @ k # ks2
         \<and> (\<forall>k' \<in> set ks1. map_of (key_frequency_map stats) k' = None)
         \<and> map_of (key_frequency_map stats) k = Some v
        \<longrightarrow> getKeyCount stats label = v)
   \<and> getKeyCount \<lparr>key_frequency_map = [(''a'', 1), (''KeyA'', 100)]\<rparr> ''a'' = 1
   \<and> getKeyCount \<lparr>key_frequency_map = [(''KeyA'', 100)]\<rparr> ''a'' = 100
   \<and> getKeyCount \<lparr>key_frequency_map = []\<rparr> ''Escape'' = 0"
proof -
  from assms getKeyCount_value [of stats label] have nonneg: "0 \<le> getKeyCount stats label"
    by (auto simp: non_negative_def list_all_iff)
  then have one: "\<exists>!c. getKeyCount stats label = c \<and> 0 \<le> c"
    by blast
  have absent: "(\<forall>k \<in> set (candidates label). map_of (key_frequency_map stats) k = None)
      \<longrightarrow> getKeyCount stats label = 0"
    by (simp add: getKeyCount_first_match first_match_absent)
  have first: "\<forall>ks1 k ks2 v.
         candidates label = ks1 @ k # ks2
         \<and> (\<forall>k' \<in> set ks1. map_of (key_frequency_map stats) k' = None)
         \<and> map_of (key_frequency_map stats) k = Some v
        \<longrightarrow> getKeyCount stats label = v"
    by (simp add: getKeyCount_first_match first_match_first)
  have i1: "getKeyCount \<lparr>key_frequency_map = [(''a'', 1), (''KeyA'', 100)]\<rparr> ''a'' = 1"
    by (simp add: getKeyCount_def)
  have i2: "getKeyCount \<lparr>key_frequency_map = [(''KeyA'', 100)]\<rparr> ''a'' = 100"
    by (simp add: getKeyCount_def case_defs)
  have i3: "getKeyCount \<lparr>key_frequency_map = []\<rparr> ''Escape'' = 0"
    by (simp add: getKeyCount_def)
  show ?thesis
    by (intro conjI one absent first i1 i2 i3)
qed

theorem resolve_total_deterministic_witness:
  "non_negative [(''a'', 1), (''KeyA'', 100)]
   \<and> candidates ''a'' = [] @ ''a'' # [''A'', ''a'', ''A'', ''KeyA'']
   \<and> map_of [(''a'', 1), (''KeyA'', 100::int)] ''a'' = Some 1
   \<and> (\<exists>!c. getKeyCount \<lparr>key_frequency_map = [(''a'', 1), (''KeyA'', 100)]\<rparr> ''a'' = c \<and> 0 \<le> c)
   \<and> getKeyCount \<lparr>key_frequency_map = [(''a'', 1), (''KeyA'', 100)]\<rparr> ''a'' = 1"
proof -
  let ?stats = "\<lparr>key_frequency_map = [(''a'', 1), (''KeyA'', 100)]\<rparr>"
  have nn: "non_negative (key_frequency_map ?stats)"
    by (simp add: non_negative_def Object_values_def AList.delete_eq)
  have cands: "candidates ''a'' = [] @ ''a'' # [''A'', ''a'', ''A'', ''KeyA'']"
    by (simp add: candidates_def title_case_def case_defs)
  have hit: "map_of (key_frequency_map ?stats) ''a'' = Some 1"
    by simp
  note inst = resolve_total_deterministic [OF nn, of "''a''"]
  from inst have one: "\<exists>!c. getKeyCount ?stats ''a'' = c \<and> 0 \<le> c"
    by blast
  from inst cands hit have val: "getKeyCount ?stats ''a'' = 1"
    by (elim conjE allE [of _ "[]"]) auto
  from nn have "non_negative [(''a'', 1), (''KeyA'', 100)]"
    by simp
  moreover from hit have "map_of [(''a'', 1), (''KeyA'', 100::int)] ''a'' = Some 1"
    by simp
  ultimately show ?thesis
    using cands one val by blast
qed

text \<open>
  Claim C8. For a label of one character the candidates are the label, its upper-cased
  form (twice, the title-cased form being the same string), its lower-cased form and "Key"
  followed by the upper-cased character. The key with the "Key" prefix is tried: when it
  is the only candidate present its value is the result. No other spelling is read: the
  result depends on the mapping at the candidates only, and it is 0 when none of them is
  present. For the label "1" the mapping "Key1" = 7 gives 7, also next to "Digit1" = 5,
  and the mapping "Digit1" = 5 alone gives 0.
\<close>

theorem single_char_Key_prefix_only:
  "(length label = 1 \<longrightarrow>
      candidates label = [label, toUpperCase label, toLowerCase label, toUpperCase label,
                          ''Key'' @ toUpperCase label])
   \<and> (length label = 1
       \<and> map_of (key_frequency_map stats) label = None
       \<and> map_of (key_frequency_map stats) (toUpperCase label) = None
       \<and> map_of (key_frequency_map stats) (toLowerCase label) = None
       \<and> map_of (key_frequency_map stats) (''Key'' @ toUpperCase label) = Some v
      \<longrightarrow> getKeyCount stats label = v)
   \<and> (length label = 1 \<and>
       (\<forall>k \<in> {label, toUpperCase label, toLowerCase label, ''Key'' @ toUpperCase label}.
          map_of (key_frequency_map stats) k = map_of (key_frequency_map stats') k)
      \<longrightarrow> getKeyCount stats label = getKeyCount stats' label)
   \<and> (length label = 1 \<and>
       (\<forall>k \<in> {label, toUpperCase label, toLowerCase label, ''Key'' @ toUpperCase label}.
          map_of (key_frequency_map stats) k = None)
      \<longrightarrow> getKeyCount stats label = 0)
   \<and> getKeyCount \<lparr>key_frequency_map = [(''Key1'', 7)]\<rparr> ''1'' = 7
   \<and> getKeyCount \<lparr>key_frequency_map = [(''Digit1'', 5), (''Key1'', 7)]\<rparr> ''1'' = 7
   \<and> getKeyCount \<lparr>key_frequency_map = [(''Digit1'', 5)]\<rparr> ''1'' = 0"
proof -
  have title: "title_case label = toUpperCase label" if "length label = 1"
    using that by (cases label) (simp_all add: title_case_def toUpperCase_def)
  have cands: "candidates label = [label, toUpperCase label, toLowerCase label,
      toUpperCase label, ''Key'' @ toUpperCase label]" if "length label = 1"
    using that by (simp add: candidates_def title)
  have key: "getKeyCount stats label = v"
    if "length label = 1"
      and "map_of (key_frequency_map stats) label = None"
      and "map_of (key_frequency_map stats) (toUpperCase label) = None"
      and "map_of (key_frequency_map stats) (toLowerCase label) = None"
      and "map_of (key_frequency_map stats) (''Key'' @ toUpperCase label) = Some v"
    using that by (simp add: getKeyCount_first_match cands)
  have agree: "getKeyCount stats label = getKeyCount stats' label"
    if "length label = 1"
      and "\<forall>k \<in> {label, toUpperCase label, toLowerCase label, ''Key'' @ toUpperCase label}.
          map_of (key_frequency_map stats) k = map_of (key_frequency_map stats') k"
    unfolding getKeyCount_first_match
    by (rule first_match_agree) (use that in \<open>simp add: cands\<close>)
  have absent: "getKeyCount stats label = 0"
    if "length label = 1"
      and "\<forall>k \<in> {label, toUpperCase label, toLowerCase label, ''Key'' @ toUpperCase label}.
          map_of (key_frequency_map stats) k = None"
    unfolding getKeyCount_first_match
    by (rule first_match_absent) (use that in \<open>simp add: cands\<close>)
  have key1: "getKeyCount \<lparr>key_frequency_map = [(''Key1'', 7)]\<rparr> ''1'' = 7"
    by (simp add: getKeyCount_def case_defs)
  have both: "getKeyCount \<lparr>key_frequency_map = [(''Digit1'', 5), (''Key1'', 7)]\<rparr> ''1'' = 7"
    by (simp add: getKeyCount_def case_defs)
  have digit: "getKeyCount \<lparr>key_frequency_map = [(''Digit1'', 5)]\<rparr> ''1'' = 0"
    by (simp add: getKeyCount_def case_defs)
  show ?thesis
    using cands key agree absent key1 both digit by blast
qed

theorem single_char_Key_prefix_only_witness:
  "length ''1'' = 1
   \<and> map_of [(''Digit1'', 5), (''Key1'', 7::int)] ''1'' = None
   \<and> map_of [(''Digit1'', 5), (''Key1'', 7::int)] (toUpperCase ''1'') = None
   \<and> map_of [(''Digit1'', 5), (''Key1'', 7::int)] (toLowerCase ''1'') = None
   \<and> map_of [(''Digit1'', 5), (''Key1'', 7::int)] (''Key'' @ toUpperCase ''1'') = Some 7
   \<and> candidates ''1'' = [''1'', ''1'', ''1'', ''1'', ''Key1'']
   \<and> getKeyCount \<lparr>key_frequency_map = [(''Digit1'', 5), (''Key1'', 7)]\<rparr> ''1'' = 7
   \<and> map_of [(''Digit1'', 5::int)] (''Key'' @ toUpperCase ''1'') = None
   \<and> getKeyCount \<lparr>key_frequency_map = [(''Digit1'', 5)]\<rparr> ''1'' = 0"
  using single_char_Key_prefix_only
    [of "''1''" "\<lparr>key_frequency_map = [(''Digit1'', 5), (''Key1'', 7)]\<rparr>" 7]
  by (simp add: case_defs)

text \<open>
  Claim C9. The lookup tests that a candidate is present, not that its value is non-zero:
  an entry for the label itself with value 0 is returned and hides every later candidate.
  For the label "a" and the mapping "a" = 0, "KeyA" = 100 the result is 0, while without
  the entry "a" it is 100.
\<close>

theorem zero_entry_shadows:
  "(map_of (key_frequency_map stats) label = Some 0 \<longrightarrow> getKeyCount stats label = 0)
   \<and> getKeyCount \<lparr>key_frequency_map = [(''a'', 0), (''KeyA'', 100)]\<rparr> ''a'' = 0
   \<and> getKeyCount \<lparr>key_frequency_map = [(''KeyA'', 100)]\<rparr> ''a'' = 100"
  by (simp add: getKeyCount_def case_defs)

theorem zero_entry_shadows_witness:
  "map_of [(''a'', 0), (''KeyA'', 100::int)] ''a'' = Some 0
   \<and> getKeyCount \<lparr>key_frequency_map = [(''a'', 0), (''KeyA'', 100)]\<rparr> ''a'' = 0"
  using zero_entry_shadows [of "\<lparr>key_frequency_map = [(''a'', 0), (''KeyA'', 100)]\<rparr>" "''a''"]
  by simp

section \<open>Intensity\<close>

lemma foldr_max_lower: "b \<le> foldr max vs (b::int)"
  by (induction vs) auto

lemma foldr_max_upper: "v \<in> set vs \<Longrightarrow> v \<le> foldr max vs (b::int)"
  by (induction vs) auto

lemma foldr_max_in: "foldr max vs (b::int) \<in> insert b (set vs)"
  by (induction vs) (auto simp: max_def)

lemma foldr_max_Max: "foldr max vs (b::int) = Max (insert b (set vs))"
proof (rule sym, rule Max_eqI)
  show "finite (insert b (set vs))" by simp
  show "foldr max vs b \<in> insert b (set vs)" by (rule foldr_max_in)
  fix y assume "y \<in> insert b (set vs)"
  then show "y \<le> foldr max vs b"
    using foldr_max_lower [of b vs] foldr_max_upper [of y vs b] by auto
qed

lemma maxCount_Max:
  "maxCount stats = Max (insert 1 (ran (map_of (key_frequency_map stats))))"
  by (simp add: maxCount_def foldr_max_Max set_Object_values)

lemma maxCount_ge_1: "1 \<le> maxCount stats"
  by (simp add: maxCount_def foldr_max_lower)

lemma getKeyCount_le_maxCount: "getKeyCount stats label \<le> maxCount stats"
  using getKeyCount_value [of stats label] maxCount_ge_1 [of stats]
  by (auto simp: maxCount_def dest: foldr_max_upper)

lemma getIntensity_le_1: "getIntensity stats label \<le> 1"
  using getKeyCount_le_maxCount [of stats label] maxCount_ge_1 [of stats]
  by (simp add: getIntensity_def)

lemma getIntensity_nonneg:
  "0 \<le> getKeyCount stats label \<Longrightarrow> 0 \<le> getIntensity stats label"
  using maxCount_ge_1 [of stats] by (simp add: getIntensity_def)

lemma all_zero_getKeyCount: "all_zero (key_frequency_map stats) \<Longrightarrow> getKeyCount stats label = 0"
  using getKeyCount_value [of stats label] by (auto simp: all_zero_def list_all_iff)

text \<open>
  Claim C3. For every label and every frequency mapping the intensity is the resolved count
  divided by \<open>maxCount\<close>, the greatest value of the mapping floored at 1. The divisor is
  at least 1, so the quotient is always defined; it is at most 1, it is not negative when
  all values of the mapping are non-negative, and for an empty or all-zero mapping every
  key has intensity 0 and bucket 0.
\<close>

theorem getIntensity_normalised:
  "getIntensity stats label
     = real_of_int (getKeyCount stats label) / real_of_int (maxCount stats)
   \<and> maxCount stats = Max (insert 1 (ran (map_of (key_frequency_map stats))))
   \<and> 1 \<le> maxCount stats
   \<and> getIntensity stats label \<le> 1
   \<and> (non_negative (key_frequency_map stats) \<longrightarrow> 0 \<le> getIntensity stats label)
   \<and> (all_zero (key_frequency_map stats) \<longrightarrow>
        getIntensity stats label = 0 \<and> bucket (getIntensity stats label) = 0)"
proof -
  have quot: "getIntensity stats label
      = real_of_int (getKeyCount stats label) / real_of_int (maxCount stats)"
    by (simp add: getIntensity_def)
  have nonneg: "non_negative (key_frequency_map stats) \<longrightarrow> 0 \<le> getIntensity stats label"
  proof
    assume "non_negative (key_frequency_map stats)"
    with getKeyCount_value [of stats label] have "0 \<le> getKeyCount stats label"
      by (auto simp: non_negative_def list_all_iff)
    then show "0 \<le> getIntensity stats label" by (rule getIntensity_nonneg)
  qed
  have zero: "all_zero (key_frequency_map stats) \<longrightarrow>
      getIntensity stats label = 0 \<and> bucket (getIntensity stats label) = 0"
    by (simp add: all_zero_getKeyCount getIntensity_def bucket_zero_iff)
  show ?thesis
    by (intro conjI quot maxCount_Max maxCount_ge_1 getIntensity_le_1 nonneg zero)
qed

theorem getIntensity_normalised_witness:
  "non_negative [(''a'', 3), (''b'', 4)]
   \<and> getIntensity \<lparr>key_frequency_map = [(''a'', 3), (''b'', 4)]\<rparr> ''a'' = 3 / 4
   \<and> 0 \<le> getIntensity \<lparr>key_frequency_map = [(''a'', 3), (''b'', 4)]\<rparr> ''a''
   \<and> all_zero []
   \<and> getIntensity \<lparr>key_frequency_map = []\<rparr> ''Escape'' = 0
   \<and> bucket (getIntensity \<lparr>key_frequency_map = []\<rparr> ''Escape'') = 0"
proof -
  have nn: "non_negative (key_frequency_map \<lparr>key_frequency_map = [(''a'', 3), (''b'', 4)]\<rparr>)"
    by (simp add: non_negative_def Object_values_def AList.delete_eq)
  have az: "all_zero (key_frequency_map \<lparr>key_frequency_map = []\<rparr>)"
    by (simp add: all_zero_def Object_values_def)
  have v: "getIntensity \<lparr>key_frequency_map = [(''a'', 3), (''b'', 4)]\<rparr> ''a'' = 3 / 4"
    by (simp add: getIntensity_def getKeyCount_def maxCount_def Object_values_def
        AList.delete_eq)
  from nn getIntensity_normalised [of "\<lparr>key_frequency_map = [(''a'', 3), (''b'', 4)]\<rparr>" "''a''"]
  have pos: "0 \<le> getIntensity \<lparr>key_frequency_map = [(''a'', 3), (''b'', 4)]\<rparr> ''a''"
    by blast
  from az getIntensity_normalised [of "\<lparr>key_frequency_map = []\<rparr>" "''Escape''"]
  have zero: "getIntensity \<lparr>key_frequency_map = []\<rparr> ''Escape'' = 0
      \<and> bucket (getIntensity \<lparr>key_frequency_map = []\<rparr> ''Escape'') = 0"
    by blast
  from nn az have "non_negative [(''a'', 3), (''b'', 4)]" and "all_zero []"
    by simp_all
  with v pos zero show ?thesis
    by blast
qed

text \<open>
  Claim C4. When the resolved count of a label equals the greatest value of the mapping and
  is positive, the intensity is exactly 1 and the bucket is 15. For the label "Space" and
  the mapping "SPACE" = 200 the resolved count is 200, the intensity 1 and the bucket 15.
\<close>

theorem global_max_top_bucket:
  "(getKeyCount stats label = Max (set (Object_values (key_frequency_map stats)))
      \<and> 0 < getKeyCount stats label
    \<longrightarrow> getIntensity stats label = 1 \<and> bucket (getIntensity stats label) = 15)
   \<and> getKeyCount \<lparr>key_frequency_map = [(''SPACE'', 200)]\<rparr> ''Space'' = 200
   \<and> getIntensity \<lparr>key_frequency_map = [(''SPACE'', 200)]\<rparr> ''Space'' = 1
   \<and> bucket (getIntensity \<lparr>key_frequency_map = [(''SPACE'', 200)]\<rparr> ''Space'') = 15"
proof -
  have top: "bucket 1 = 15"
    by (simp add: bucket_ladder)
  have general: "getIntensity stats label = 1"
    if eq: "getKeyCount stats label = Max (set (Object_values (key_frequency_map stats)))"
      and pos: "0 < getKeyCount stats label"
  proof -
    from pos getKeyCount_value [of stats label]
    have mem: "getKeyCount stats label \<in> set (Object_values (key_frequency_map stats))"
      by auto
    have "Max (insert 1 (set (Object_values (key_frequency_map stats))))
        = max 1 (Max (set (Object_values (key_frequency_map stats))))"
      using mem by (intro Max_insert) auto
    then have "maxCount stats = max 1 (Max (set (Object_values (key_frequency_map stats))))"
      by (simp add: maxCount_def foldr_max_Max)
    with eq pos have "maxCount stats = getKeyCount stats label"
      by simp
    with pos show ?thesis
      by (simp add: getIntensity_def)
  qed
  have count: "getKeyCount \<lparr>key_frequency_map = [(''SPACE'', 200)]\<rparr> ''Space'' = 200"
    by (simp add: getKeyCount_def case_defs)
  have int: "getIntensity \<lparr>key_frequency_map = [(''SPACE'', 200)]\<rparr> ''Space'' = 1"
    by (simp add: getIntensity_def count maxCount_def Object_values_def)
  show ?thesis
    using general top count int by simp
qed

theorem global_max_top_bucket_witness:
  "getKeyCount \<lparr>key_frequency_map = [(''SPACE'', 200), (''KeyA'', 7)]\<rparr> ''Space''
     = Max (set (Object_values [(''SPACE'', 200), (''KeyA'', 7)]))
   \<and> 0 < getKeyCount \<lparr>key_frequency_map = [(''SPACE'', 200), (''KeyA'', 7)]\<rparr> ''Space''
   \<and> getIntensity \<lparr>key_frequency_map = [(''SPACE'', 200), (''KeyA'', 7)]\<rparr> ''Space'' = 1
   \<and> bucket (getIntensity \<lparr>key_frequency_map = [(''SPACE'', 200), (''KeyA'', 7)]\<rparr> ''Space'')
       = 15"
proof -
  let ?stats = "\<lparr>key_frequency_map = [(''SPACE'', 200), (''KeyA'', 7)]\<rparr>"
  have count: "getKeyCount ?stats ''Space'' = 200"
    by (simp add: getKeyCount_def case_defs)
  have mx: "Max (set (Object_values [(''SPACE'', 200), (''KeyA'', 7)])) = 200"
    by (simp add: Object_values_def AList.delete_eq)
  have hyp: "getKeyCount ?stats ''Space'' = Max (set (Object_values (key_frequency_map ?stats)))
      \<and> 0 < getKeyCount ?stats ''Space''"
    using count mx by simp
  with global_max_top_bucket [of ?stats "''Space''"]
  have "getIntensity ?stats ''Space'' = 1 \<and> bucket (getIntensity ?stats ''Space'') = 15"
    by blast
  moreover from count mx
  have "getKeyCount ?stats ''Space'' = Max (set (Object_values [(''SPACE'', 200), (''KeyA'', 7)]))"
    and "0 < getKeyCount ?stats ''Space''"
    by simp_all
  ultimately show ?thesis
    by blast
qed

section \<open>Band widths\<close>

text \<open>
  Claim C5, as stated, fails: the widths of the bands do not shrink from bucket to bucket.
  The band of bucket 2 runs from 0.04 to 0.08 and that of bucket 3 from 0.08 to 0.13, so
  the successor is wider.
\<close>

theorem band_width_counterexample: "band_width 2 < band_width 3"
  by (simp add: band_width_def band_upper_def band_lower_def thresholds_def)

text \<open>
  Claim C5, amended. The widths of the bands of buckets 1 to 15 are 0.04, 0.04, 0.05, 0.06,
  0.07, 0.08, 0.08, 0.10, 0.10, 0.08, 0.07, 0.07, 0.06, 0.06, 0.04: they do not decrease
  from bucket 1 to bucket 9 and do not increase from bucket 9 to bucket 15, and the top
  band is as wide as the bottom band.
\<close>

theorem band_widths_unimodal:
  "map band_width [1, 2, 3, 4, 5, 6, 7, 8, 9, 10, 11, 12, 13, 14, 15] =
    [0.04, 0.04, 0.05, 0.06, 0.07, 0.08, 0.08, 0.1, 0.1, 0.08, 0.07, 0.07, 0.06, 0.06, 0.04]
   \<and> sorted (map band_width [1, 2, 3, 4, 5, 6, 7, 8, 9])
   \<and> sorted (rev (map band_width [9, 10, 11, 12, 13, 14, 15]))
   \<and> band_width 1 = band_width 15"
  by (simp add: band_width_def band_upper_def band_lower_def thresholds_def)

section \<open>Display labels\<close>

lemma display_glyph_nonempty: "map_of KEY_DISPLAY_NAMES key = Some glyph \<Longrightarrow> glyph \<noteq> []"
  by (drule map_of_SomeD)
    (auto simp: KEY_DISPLAY_NAMES_def glyph_backspace_def glyph_return_def glyph_shift_def
      glyph_meta_def)

lemma renderKey_displayName:
  "cell_displayName (renderKey stats key) =
    (case map_of KEY_DISPLAY_NAMES key of Some glyph \<Rightarrow> glyph | None \<Rightarrow> toUpperCase key)"
  by (auto simp: renderKey_def Let_def or_else_def split: option.splits
      dest: display_glyph_nonempty)

text \<open>
  Claim C10. The heatmap renders one cell per label of the layout, in layout order, and the
  display label of each cell is the entry of \<open>KEY_DISPLAY_NAMES\<close> for that label when
  there is one, and the upper-cased label otherwise. "Return" shows the return glyph, "a"
  shows "A".
\<close>

theorem display_label_table_or_upper:
  "map (map cell_displayName) (KeyboardHeatmap stats) =
     map (map (\<lambda>key. case map_of KEY_DISPLAY_NAMES key of
                       Some glyph \<Rightarrow> glyph | None \<Rightarrow> toUpperCase key)) KEYBOARD_LAYOUT
   \<and> map (map cell_key) (KeyboardHeatmap stats) = KEYBOARD_LAYOUT
   \<and> cell_displayName (renderKey stats ''Return'') = glyph_return
   \<and> cell_displayName (renderKey stats ''a'') = ''A''"
proof -
  have keys: "map (map cell_key) (KeyboardHeatmap stats) = KEYBOARD_LAYOUT"
    by (simp add: KeyboardHeatmap_def renderKey_def Let_def comp_def map_idI)
  have names: "map (map cell_displayName) (KeyboardHeatmap stats) =
     map (map (\<lambda>key. case map_of KEY_DISPLAY_NAMES key of
                       Some glyph \<Rightarrow> glyph | None \<Rightarrow> toUpperCase key)) KEYBOARD_LAYOUT"
    by (simp add: KeyboardHeatmap_def comp_def renderKey_displayName)
  have ret: "cell_displayName (renderKey stats ''Return'') = glyph_return"
    by (simp add: renderKey_displayName KEY_DISPLAY_NAMES_def)
  have a: "cell_displayName (renderKey stats ''a'') = ''A''"
    by (simp add: renderKey_displayName KEY_DISPLAY_NAMES_def case_defs)
  show ?thesis
    by (intro conjI names keys ret a)
qed

end
